theory Spec2Isabelle
  imports Main "HOL-Library.Char_ord" "HOL-Library.List_Lexorder"
begin

section \<open>The NATS client of \<^verbatim>\<open>nats/io/client.py\<close>\<close>

text \<open>
  The client is a Python 2 class whose methods mutate the instance and write byte strings
  to a tornado stream. The model passes the instance explicitly: every method takes the
  client and returns the value the call produces (or the exception it raises) together
  with the client afterwards. A write to the stream appends to the list of byte strings
  written so far. The methods keep their names, without the leading underscore of
  \<^verbatim>\<open>_process_msg\<close> and \<^verbatim>\<open>_process_err\<close>; \<^verbatim>\<open>_publish\<close> is \<open>priv_publish\<close>.
\<close>

subsection \<open>Data model\<close>

text \<open>The exceptions the modelled code can raise.\<close>

datatype error = KeyError | AttributeError | IndexError | TypeError | ValueError | UnicodeDecodeError

text \<open>
  The Python values an option of the connection can hold in this model: \<^verbatim>\<open>None\<close>,
  booleans, integers, byte strings (Python 2 \<^verbatim>\<open>str\<close>) and lists of those.
\<close>

datatype pyval = PNone | PBool bool | PInt int | PStr string | PList "pyval list"

text \<open>
  \<^verbatim>\<open>class Subscription\<close>: the subject, the callback and the counter \<^verbatim>\<open>received\<close>,
  which the constructor sets to 0. A callback is an opaque reference of type \<open>'cb\<close>;
  what calling it does is given to the dispatcher as a parameter.
\<close>

record 'cb subscription =
  subject :: string
  callback :: 'cb
  received :: int

text \<open>
  Modelled from the spec: the message object the parser hands to the dispatcher is
  declared in \<^verbatim>\<open>nats.protocol.parser\<close>, which is not among the sources. The spec gives
  it a subject, an optional reply-to subject, the payload and the sid; the client reads
  only \<^verbatim>\<open>msg.sid\<close>.
\<close>

record msg =
  msg_subject :: string
  msg_reply :: string
  msg_data :: string
  sid :: int

text \<open>
  \<^verbatim>\<open>class Client\<close>. The fields are those \<^verbatim>\<open>__init__\<close> sets (the parser apart), and
  \<^verbatim>\<open>io\<close>, which only \<^verbatim>\<open>connect\<close> sets: it is \<open>None\<close> while the attribute does not
  exist, and otherwise holds the byte strings written to the stream, oldest first.
\<close>

record 'cb client =
  options :: "string \<rightharpoonup> pyval"
  server_info :: "string \<rightharpoonup> pyval"
  subs :: "int \<rightharpoonup> 'cb subscription"
  ssid :: int
  err :: "string option"
  io :: "string list option"

text \<open>The client as \<^verbatim>\<open>__init__\<close> leaves it.\<close>

definition init :: "'cb client" where
  "init = \<lparr>options = Map.empty, server_info = Map.empty, subs = Map.empty, ssid = 0,
            err = None, io = None\<rparr>"

subsection \<open>Constants and formatting\<close>

definition version :: string where "version = ''0.0.1''"
definition lang :: string where "lang = ''python2''"
definition CRLF :: string where "CRLF = [CHR 0x0D, CHR 0x0A]"
definition SPC :: string where "SPC = '' ''"
definition EMPTY :: string where "EMPTY = []"

text \<open>
  Modelled from the spec: the operation names \<^verbatim>\<open>CONNECT_OP\<close>, \<^verbatim>\<open>PUB_OP\<close>, \<^verbatim>\<open>SUB_OP\<close>
  and \<^verbatim>\<open>UNSUB_OP\<close> are imported from \<^verbatim>\<open>nats.protocol.parser\<close>, which is not among the
  sources. The spec's wire protocol names the client's commands \<^verbatim>\<open>CONNECT\<close>, \<^verbatim>\<open>PUB\<close>,
  \<^verbatim>\<open>SUB\<close> and \<^verbatim>\<open>UNSUB\<close>.
\<close>

definition CONNECT_OP :: string where "CONNECT_OP = ''CONNECT''"
definition PUB_OP :: string where "PUB_OP = ''PUB''"
definition SUB_OP :: string where "SUB_OP = ''SUB''"
definition UNSUB_OP :: string where "UNSUB_OP = ''UNSUB''"

text \<open>\<^verbatim>\<open>str\<close> of an integer: decimal digits, with a minus sign below zero.\<close>

fun digits :: "nat \<Rightarrow> string" where
  "digits n = (if n < 10 then [''0123456789'' ! n]
               else digits (n div 10) @ [''0123456789'' ! (n mod 10)])"

declare digits.simps [simp del]

definition str_int :: "int \<Rightarrow> string" where
  "str_int i = (if i < 0 then ''-'' @ digits (nat (- i)) else digits (nat i))"

text \<open>\<^verbatim>\<open>"{}".format(x)\<close> for an argument that is a string or \<^verbatim>\<open>None\<close>, and for an integer or \<^verbatim>\<open>None\<close>.\<close>

definition str_opt :: "string option \<Rightarrow> string" where
  "str_opt q = (case q of None \<Rightarrow> ''None'' | Some s \<Rightarrow> s)"

definition str_int_opt :: "int option \<Rightarrow> string" where
  "str_int_opt m = (case m of None \<Rightarrow> ''None'' | Some i \<Rightarrow> str_int i)"

subsection \<open>Writing commands\<close>

text \<open>
  \<^verbatim>\<open>send_command\<close> is \<^verbatim>\<open>self.io.write(bytes(cmd))\<close>: before \<^verbatim>\<open>connect\<close> the attribute
  \<^verbatim>\<open>io\<close> is missing and the lookup raises. The method is a coroutine without a
  \<^verbatim>\<open>yield\<close>: it runs to its end when called, and an exception is kept in the future it
  returns. A caller that yields the future gets the exception; one that drops the
  future never sees it.
\<close>

definition send_command :: "string \<Rightarrow> 'cb client \<Rightarrow> (error + unit) \<times> 'cb client" where
  "send_command cmd c =
     (case io c of
        None \<Rightarrow> (Inl AttributeError, c)
      | Some w \<Rightarrow> (Inr (), c\<lparr>io := Some (w @ [cmd])\<rparr>))"

text \<open>
  \<^verbatim>\<open>_publish\<close> yields three writes in turn: the control line, the payload, the line
  end. A write that raises ends the coroutine with that exception.
\<close>

definition pub_cmd :: "string \<Rightarrow> string \<Rightarrow> string \<Rightarrow> string" where
  "pub_cmd subj reply payload =
     PUB_OP @ '' '' @ subj @ '' '' @ reply @ '' '' @ str_int (int (length payload)) @ '' '' @ CRLF"

definition priv_publish ::
  "string \<Rightarrow> string \<Rightarrow> string \<Rightarrow> 'cb client \<Rightarrow> (error + unit) \<times> 'cb client" where
  "priv_publish subj reply payload c =
     (case send_command (pub_cmd subj reply payload) c of
        (Inl e, c1) \<Rightarrow> (Inl e, c1)
      | (Inr _, c1) \<Rightarrow>
          (case send_command payload c1 of
             (Inl e, c2) \<Rightarrow> (Inl e, c2)
           | (Inr _, c2) \<Rightarrow> send_command CRLF c2))"

text \<open>
  \<^verbatim>\<open>publish\<close> and \<^verbatim>\<open>publish_request\<close> call \<^verbatim>\<open>_publish\<close> and drop its future, so they
  resolve to \<^verbatim>\<open>None\<close> whatever \<^verbatim>\<open>_publish\<close> did.
\<close>

definition publish :: "string \<Rightarrow> string \<Rightarrow> 'cb client \<Rightarrow> (error + unit) \<times> 'cb client" where
  "publish subj payload c = (Inr (), snd (priv_publish subj EMPTY payload c))"

definition publish_request ::
  "string \<Rightarrow> string \<Rightarrow> string \<Rightarrow> 'cb client \<Rightarrow> (error + unit) \<times> 'cb client" where
  "publish_request subj reply payload c = (Inr (), snd (priv_publish subj reply payload c))"

subsection \<open>Subscriptions\<close>

text \<open>
  \<^verbatim>\<open>subscribe\<close> increments the counter, stores a new subscription under the new sid,
  writes the \<^verbatim>\<open>SUB\<close> command (dropping the future of the write) and returns the sid.
  The format string \<^verbatim>\<open>"{} {} {}{}{}"\<close> puts nothing between the queue and the sid.
\<close>

definition sub_cmd :: "string \<Rightarrow> string option \<Rightarrow> int \<Rightarrow> string" where
  "sub_cmd subj queue i = SUB_OP @ '' '' @ subj @ '' '' @ str_opt queue @ str_int i @ CRLF"

definition subscribe ::
  "string \<Rightarrow> string option \<Rightarrow> 'cb \<Rightarrow> 'cb client \<Rightarrow> (error + int) \<times> 'cb client" where
  "subscribe subj queue cb c =
     (let c1 = c\<lparr>ssid := ssid c + 1\<rparr>;
          i = ssid c1;
          sub = \<lparr>subject = subj, callback = cb, received = 0\<rparr>;
          c2 = c1\<lparr>subs := (subs c1)(i \<mapsto> sub)\<rparr>;
          c3 = snd (send_command (sub_cmd subj queue i) c2)
      in (Inr i, c3))"

text \<open>\<^verbatim>\<open>unsubscribe\<close> writes the \<^verbatim>\<open>UNSUB\<close> command, dropping the future of the write.\<close>

definition unsub_cmd :: "int \<Rightarrow> int option \<Rightarrow> string" where
  "unsub_cmd i mx = UNSUB_OP @ '' '' @ str_int i @ '' '' @ str_int_opt mx @ CRLF"

definition unsubscribe ::
  "int \<Rightarrow> int option \<Rightarrow> 'cb client \<Rightarrow> (error + unit) \<times> 'cb client" where
  "unsubscribe i mx c = (Inr (), snd (send_command (unsub_cmd i mx) c))"

subsection \<open>Dispatch\<close>

text \<open>
  \<^verbatim>\<open>_process_msg\<close> looks the sid up with \<^verbatim>\<open>self._subs[msg.sid]\<close>, which raises
  \<^verbatim>\<open>KeyError\<close> on a missing key, and calls the callback of the subscription found.
  The parameter \<open>call\<close> says what calling a callback on a message does to the client
  and whether it raises.
\<close>

definition process_msg ::
  "('cb \<Rightarrow> msg \<Rightarrow> 'cb client \<Rightarrow> (error + unit) \<times> 'cb client) \<Rightarrow>
   msg \<Rightarrow> 'cb client \<Rightarrow> (error + unit) \<times> 'cb client" where
  "process_msg call m c =
     (case subs c (sid m) of
        None \<Rightarrow> (Inl KeyError, c)
      | Some sub \<Rightarrow> call (callback sub) m c)"

text \<open>
  \<^verbatim>\<open>_process_err\<close> assigns to \<^verbatim>\<open>self.nc._err\<close>. A client has no attribute \<^verbatim>\<open>nc\<close>
  (neither the class nor \<^verbatim>\<open>__init__\<close> defines one), so reading \<^verbatim>\<open>self.nc\<close> raises
  \<^verbatim>\<open>AttributeError\<close> before anything is assigned.
\<close>

definition process_err :: "string option \<Rightarrow> 'cb client \<Rightarrow> (error + unit) \<times> 'cb client" where
  "process_err e c = (Inl AttributeError, c)"

definition last_error :: "'cb client \<Rightarrow> string option" where
  "last_error c = err c"

text \<open>\<^verbatim>\<open>request\<close> has the body \<^verbatim>\<open>pass\<close>: it resolves to \<^verbatim>\<open>None\<close>.\<close>

definition request :: "string \<Rightarrow> string \<Rightarrow> 'cb client \<Rightarrow> (error + msg option) \<times> 'cb client" where
  "request subj payload c = (Inr None, c)"

text \<open>A sequence of calls to \<^verbatim>\<open>subscribe\<close> and \<^verbatim>\<open>unsubscribe\<close>, and the sids it returns in order.\<close>

datatype 'cb call = Subscribe string "string option" 'cb | Unsubscribe int "int option"

fun run_calls :: "'cb call list \<Rightarrow> 'cb client \<Rightarrow> int list \<times> 'cb client" where
  "run_calls [] c = ([], c)"
| "run_calls (Subscribe subj queue cb # cs) c =
     (case subscribe subj queue cb c of
        (r, c1) \<Rightarrow>
          (case run_calls cs c1 of
             (sids, c2) \<Rightarrow> ((case r of Inl _ \<Rightarrow> sids | Inr i \<Rightarrow> i # sids), c2)))"
| "run_calls (Unsubscribe i mx # cs) c = run_calls cs (snd (unsubscribe i mx c))"

fun is_subscribe :: "'cb call \<Rightarrow> bool" where
  "is_subscribe (Subscribe _ _ _) = True"
| "is_subscribe (Unsubscribe _ _) = False"

subsection \<open>The CONNECT command\<close>

text \<open>
  \<^verbatim>\<open>json.dumps(options, sort_keys=True)\<close> with the default separators, on the values
  of \<^typ>\<open>pyval\<close>. A byte string is written by the library's
  \<^verbatim>\<open>encode_basestring_ascii\<close>: between double quotes, with the backslash, the double
  quote and every character outside the range from space to tilde escaped. A string
  that has a byte above 127 is first decoded as UTF-8 into code points; that decoder
  belongs to the Python runtime and is the parameter \<open>utf8\<close>, which returns \<open>None\<close>
  where decoding raises.
\<close>

definition hex4 :: "nat \<Rightarrow> string" where
  "hex4 n = map (\<lambda>d. ''0123456789abcdef'' ! d)
              [n div 4096 mod 16, n div 256 mod 16, n div 16 mod 16, n mod 16]"

definition escape_ascii :: "char \<Rightarrow> string" where
  "escape_ascii ch =
     (if ch = CHR 0x5C then [CHR 0x5C, CHR 0x5C]
      else if ch = CHR 0x22 then [CHR 0x5C, CHR 0x22]
      else if ch = CHR 0x08 then [CHR 0x5C, CHR ''b'']
      else if ch = CHR 0x0C then [CHR 0x5C, CHR ''f'']
      else if ch = CHR 0x0A then [CHR 0x5C, CHR ''n'']
      else if ch = CHR 0x0D then [CHR 0x5C, CHR ''r'']
      else if ch = CHR 0x09 then [CHR 0x5C, CHR ''t'']
      else if CHR 0x20 \<le> ch \<and> ch \<le> CHR 0x7E then [ch]
      else [CHR 0x5C, CHR ''u''] @ hex4 (of_char ch))"

definition escape :: "nat \<Rightarrow> string" where
  "escape n =
     (if n < 0x80 then escape_ascii (char_of n)
      else if n < 0x10000 then [CHR 0x5C, CHR ''u''] @ hex4 n
      else [CHR 0x5C, CHR ''u''] @ hex4 (0xD800 + (n - 0x10000) div 1024 mod 1024) @
           [CHR 0x5C, CHR ''u''] @ hex4 (0xDC00 + (n - 0x10000) mod 1024))"

definition encode_basestring_ascii :: "(string \<Rightarrow> nat list option) \<Rightarrow> string \<Rightarrow> error + string" where
  "encode_basestring_ascii utf8 s =
     (if list_all (\<lambda>ch. (of_char ch :: nat) < 0x80) s
      then Inr ([CHR 0x22] @ concat (map escape_ascii s) @ [CHR 0x22])
      else (case utf8 s of
              None \<Rightarrow> Inl UnicodeDecodeError
            | Some cps \<Rightarrow> Inr ([CHR 0x22] @ concat (map escape cps) @ [CHR 0x22])))"

text \<open>\<^verbatim>\<open>sep.join(parts)\<close>.\<close>

fun join :: "string \<Rightarrow> string list \<Rightarrow> string" where
  "join sep [] = []"
| "join sep [x] = x"
| "join sep (x # y # ys) = x @ sep @ join sep (y # ys)"

fun dumps :: "(string \<Rightarrow> nat list option) \<Rightarrow> pyval \<Rightarrow> error + string"
  and dumps_items :: "(string \<Rightarrow> nat list option) \<Rightarrow> pyval list \<Rightarrow> error + string list" where
  "dumps utf8 PNone = Inr ''null''"
| "dumps utf8 (PBool b) = Inr (if b then ''true'' else ''false'')"
| "dumps utf8 (PInt i) = Inr (str_int i)"
| "dumps utf8 (PStr s) = encode_basestring_ascii utf8 s"
| "dumps utf8 (PList xs) =
     (case dumps_items utf8 xs of
        Inl e \<Rightarrow> Inl e
      | Inr ss \<Rightarrow> Inr (''['' @ join '', '' ss @ '']''))"
| "dumps_items utf8 [] = Inr []"
| "dumps_items utf8 (x # xs) =
     (case dumps utf8 x of
        Inl e \<Rightarrow> Inl e
      | Inr s \<Rightarrow>
          (case dumps_items utf8 xs of
             Inl e \<Rightarrow> Inl e
           | Inr ss \<Rightarrow> Inr (s # ss)))"

text \<open>
  A dictionary with string keys, as the list of its items (the keys distinct). With
  \<^verbatim>\<open>sort_keys=True\<close> the items are written in ascending order of the keys, which for
  byte strings is the lexicographic order of the bytes.
\<close>

fun dumps_pairs :: "(string \<Rightarrow> nat list option) \<Rightarrow> (string \<times> pyval) list \<Rightarrow> error + string list" where
  "dumps_pairs utf8 [] = Inr []"
| "dumps_pairs utf8 ((k, v) # kvs) =
     (case encode_basestring_ascii utf8 k of
        Inl e \<Rightarrow> Inl e
      | Inr sk \<Rightarrow>
          (case dumps utf8 v of
             Inl e \<Rightarrow> Inl e
           | Inr sv \<Rightarrow>
               (case dumps_pairs utf8 kvs of
                  Inl e \<Rightarrow> Inl e
                | Inr ss \<Rightarrow> Inr ((sk @ '': '' @ sv) # ss))))"

definition dumps_dict :: "(string \<Rightarrow> nat list option) \<Rightarrow> (string \<times> pyval) list \<Rightarrow> error + string" where
  "dumps_dict utf8 d =
     (case dumps_pairs utf8 (sort_key fst d) of
        Inl e \<Rightarrow> Inl e
      | Inr ss \<Rightarrow> Inr (''{'' @ join '', '' ss @ ''}''))"

text \<open>
  The dictionary \<^verbatim>\<open>options\<close> that \<^verbatim>\<open>connect_command\<close> builds: the four entries of the
  literal (reading \<^verbatim>\<open>self.options["verbose"]\<close> and \<^verbatim>\<open>self.options["pedantic"]\<close>
  raises \<^verbatim>\<open>KeyError\<close> when the key is missing) and, when the key \<^verbatim>\<open>auth_required\<close> is
  in the server's info, the entries \<^verbatim>\<open>user\<close> and \<^verbatim>\<open>pass\<close>, each \<^verbatim>\<open>None\<close> when the
  client's options lack it.
\<close>

definition connect_options :: "'cb client \<Rightarrow> error + (string \<times> pyval) list" where
  "connect_options c =
     (case options c ''verbose'' of
        None \<Rightarrow> Inl KeyError
      | Some v \<Rightarrow>
          (case options c ''pedantic'' of
             None \<Rightarrow> Inl KeyError
           | Some p \<Rightarrow>
               (let d = [(''verbose'', v), (''pedantic'', p),
                         (''lang'', PStr lang), (''version'', PStr version)]
                in if server_info c ''auth_required'' \<noteq> None
                   then Inr (d @ [(''user'', (case options c ''user'' of None \<Rightarrow> PNone | Some u \<Rightarrow> u)),
                                  (''pass'', (case options c ''pass'' of None \<Rightarrow> PNone | Some pw \<Rightarrow> pw))])
                   else Inr d)))"

text \<open>\<^verbatim>\<open>connect_command\<close>: the operation name, a space, the dictionary as JSON, the line end.\<close>

definition connect_command :: "(string \<Rightarrow> nat list option) \<Rightarrow> 'cb client \<Rightarrow> error + string" where
  "connect_command utf8 c =
     (case connect_options c of
        Inl e \<Rightarrow> Inl e
      | Inr d \<Rightarrow>
          (case dumps_dict utf8 d of
             Inl e \<Rightarrow> Inl e
           | Inr args \<Rightarrow> Inr (CONNECT_OP @ '' '' @ args @ CRLF)))"

subsection \<open>Choosing the server\<close>

text \<open>
  What \<^verbatim>\<open>urlparse\<close> returns: the attributes \<^verbatim>\<open>connect\<close> reads. Reading \<^verbatim>\<open>port\<close>
  converts the port to an integer and can raise. The function itself belongs to the
  Python library and is a parameter of the model, from the value it is given to the
  parsed URI or the exception it raises.
\<close>

record uri =
  hostname :: "string option"
  port :: "error + int option"
  username :: "string option"
  password :: "string option"

definition py_str_opt :: "string option \<Rightarrow> pyval" where
  "py_str_opt x = (case x of None \<Rightarrow> PNone | Some s \<Rightarrow> PStr s)"

definition py_int_opt :: "int option \<Rightarrow> pyval" where
  "py_int_opt x = (case x of None \<Rightarrow> PNone | Some i \<Rightarrow> PInt i)"

text \<open>\<^verbatim>\<open>x[0]\<close> on a value: the first element of a list, the first character of a string.\<close>

definition first_item :: "pyval \<Rightarrow> error + pyval" where
  "first_item x =
     (case x of
        PList [] \<Rightarrow> Inl IndexError
      | PList (y # _) \<Rightarrow> Inr y
      | PStr [] \<Rightarrow> Inl IndexError
      | PStr (ch # _) \<Rightarrow> Inr (PStr [ch])
      | _ \<Rightarrow> Inl TypeError)"

text \<open>
  \<^verbatim>\<open>connect\<close> from its first line to the call of \<^verbatim>\<open>self.io.connect\<close>: it makes a new
  stream, stores \<^verbatim>\<open>verbose\<close> and \<^verbatim>\<open>pedantic\<close> from the argument \<^verbatim>\<open>opts\<close> (default
  \<^verbatim>\<open>False\<close>), then tests whether \<^verbatim>\<open>"servers"\<close> is a key of \<^verbatim>\<open>self.options\<close> and
  stores the host and port. The result is the address handed to \<^verbatim>\<open>self.io.connect\<close>,
  or the exception raised before that call. The handshake that follows is not modelled.
\<close>

definition connect_bind ::
  "(pyval \<Rightarrow> error + uri) \<Rightarrow> (string \<rightharpoonup> pyval) \<Rightarrow> 'cb client \<Rightarrow>
   (error + pyval \<times> pyval) \<times> 'cb client" where
  "connect_bind urlparse opts c =
     (let c0 = c\<lparr>io := Some []\<rparr>;
          c1 = c0\<lparr>options := (options c0)(''verbose'' \<mapsto>
                  (case opts ''verbose'' of Some v \<Rightarrow> v | None \<Rightarrow> PBool False))\<rparr>;
          c2 = c1\<lparr>options := (options c1)(''pedantic'' \<mapsto>
                  (case opts ''pedantic'' of Some v \<Rightarrow> v | None \<Rightarrow> PBool False))\<rparr>
      in case options c2 ''servers'' of
           None \<Rightarrow>
             (let c3 = c2\<lparr>options := (options c2)(''host'' \<mapsto> PStr ''127.0.0.1'')\<rparr>;
                  c4 = c3\<lparr>options := (options c3)(''port'' \<mapsto> PInt 4222)\<rparr>
              in (Inr (PStr ''127.0.0.1'', PInt 4222), c4))
         | Some servers \<Rightarrow>
             (case first_item servers of
                Inl e \<Rightarrow> (Inl e, c2)
              | Inr server \<Rightarrow>
                  (case urlparse server of
                     Inl e \<Rightarrow> (Inl e, c2)
                   | Inr u \<Rightarrow>
                       (let c3 = c2\<lparr>options := (options c2)(''host'' \<mapsto> py_str_opt (hostname u))\<rparr>
                        in case port u of
                             Inl e \<Rightarrow> (Inl e, c3)
                           | Inr pt \<Rightarrow>
                               (let c4 = c3\<lparr>options := (options c3)(''port'' \<mapsto> py_int_opt pt)\<rparr>;
                                    c5 = (case username u of
                                            None \<Rightarrow> c4
                                          | Some n \<Rightarrow>
                                              c4\<lparr>options := (options c4)(''user'' \<mapsto> PStr n)\<rparr>);
                                    c6 = (case password u of
                                            None \<Rightarrow> c5
                                          | Some pw \<Rightarrow>
                                              c5\<lparr>options := (options c5)(''pass'' \<mapsto> PStr pw)\<rparr>)
                                in (Inr (py_str_opt (hostname u), py_int_opt pt), c6))))))"

section \<open>Properties\<close>

subsection \<open>Publishing\<close>

lemma priv_publish_connected:
  "io c = Some w \<Longrightarrow>
   priv_publish subj reply payload c =
     (Inr (), c\<lparr>io := Some (w @ [pub_cmd subj reply payload, payload, CRLF])\<rparr>)"
  by (simp add: priv_publish_def send_command_def)

text \<open>
  C10: \<^verbatim>\<open>publish(subject, payload)\<close> does exactly what
  \<^verbatim>\<open>publish_request(subject, b'', payload)\<close> does. On a connected client both append
  three writes to the stream: the control line \<^verbatim>\<open>PUB\<close>, subject, the empty reply-to
  between two spaces, the decimal length of the payload, a space and the line end; then
  the payload; then the line end.
\<close>

theorem publish_eq_publish_request:
  "publish subj payload c = publish_request subj [] payload c \<and>
   (io c = Some w \<longrightarrow>
      publish subj payload c =
        (Inr (), c\<lparr>io := Some (w @ [''PUB '' @ subj @ '' '' @ [] @ '' '' @
                                      str_int (int (length payload)) @ '' '' @ CRLF,
                                    payload, CRLF])\<rparr>))"
  by (simp add: publish_def publish_request_def EMPTY_def priv_publish_connected
      pub_cmd_def PUB_OP_def)

text \<open>On a connected client, publishing \<^verbatim>\<open>hello\<close> on \<^verbatim>\<open>foo\<close>.\<close>

theorem publish_eq_publish_request_witness:
  "io (init\<lparr>io := Some []\<rparr> :: unit client) = Some [] \<and>
   publish ''foo'' ''hello'' (init\<lparr>io := Some []\<rparr> :: unit client) =
     (Inr (), init\<lparr>io := Some [''PUB foo  5 '' @ CRLF, ''hello'', CRLF]\<rparr>)"
  using publish_eq_publish_request
    [THEN conjunct2, of "init\<lparr>io := Some []\<rparr> :: unit client" "[]" "''foo''" "''hello''"]
  by (simp add: init_def str_int_def digits.simps)

subsection \<open>Subscription ids\<close>

lemma send_command_keeps:
  "ssid (snd (send_command cmd c)) = ssid c"
  "subs (snd (send_command cmd c)) = subs c"
  by (simp_all add: send_command_def split: option.splits)

lemma subscribe_sid: "fst (subscribe subj queue cb c) = Inr (ssid c + 1)"
  by (simp add: subscribe_def Let_def)

lemma subscribe_ssid: "ssid (snd (subscribe subj queue cb c)) = ssid c + 1"
  by (simp add: subscribe_def Let_def send_command_keeps)

lemma unsubscribe_ssid: "ssid (snd (unsubscribe i mx c)) = ssid c"
  by (simp add: unsubscribe_def send_command_keeps)

lemma unsubscribe_subs: "subs (snd (unsubscribe i mx c)) = subs c"
  by (simp add: unsubscribe_def send_command_keeps)

lemma run_calls_sids:
  "run_calls cs c = (sids, c') \<Longrightarrow>
   sorted_wrt (<) sids \<and> (\<forall>s \<in> set sids. ssid c < s) \<and> ssid c \<le> ssid c' \<and>
   length sids = length (filter is_subscribe cs)"
proof (induction cs arbitrary: c sids c')
  case Nil
  then show ?case by simp
next
  case (Cons x cs)
  show ?case
  proof (cases x)
    case (Subscribe subj queue cb)
    obtain r c1 where s: "subscribe subj queue cb c = (r, c1)"
      by (cases "subscribe subj queue cb c")
    obtain rest c2 where r: "run_calls cs c1 = (rest, c2)"
      by (cases "run_calls cs c1")
    have r_eq: "r = Inr (ssid c + 1)"
      using subscribe_sid [of subj queue cb c] s by simp
    have c1_eq: "ssid c1 = ssid c + 1"
      using subscribe_ssid [of subj queue cb c] s by simp
    have sids_eq: "sids = (ssid c + 1) # rest" and c'_eq: "c' = c2"
      using Cons.prems Subscribe s r r_eq by simp_all
    from Cons.IH [OF r] c1_eq sids_eq c'_eq Subscribe show ?thesis
      by auto
  next
    case (Unsubscribe i mx)
    then have "run_calls cs (snd (unsubscribe i mx c)) = (sids, c')"
      using Cons.prems by simp
    from Cons.IH [OF this] Unsubscribe show ?thesis
      by (simp add: unsubscribe_ssid)
  qed
qed

text \<open>
  C7: in any sequence of calls to \<^verbatim>\<open>subscribe\<close> and \<^verbatim>\<open>unsubscribe\<close>, started from
  any client, every \<^verbatim>\<open>subscribe\<close> returns a sid, the sids returned are strictly
  increasing in the order of the calls, no sid is returned twice, and each is above the
  counter the sequence started with.
\<close>

theorem sids_strictly_increasing:
  "sorted_wrt (<) (fst (run_calls cs c)) \<and>
   distinct (fst (run_calls cs c)) \<and>
   (\<forall>s \<in> set (fst (run_calls cs c)). ssid c < s) \<and>
   length (fst (run_calls cs c)) = length (filter is_subscribe cs)"
proof -
  obtain sids c' where r: "run_calls cs c = (sids, c')"
    by (cases "run_calls cs c")
  from run_calls_sids [OF r] have "sorted_wrt (<) sids" "\<forall>s \<in> set sids. ssid c < s"
    "length sids = length (filter is_subscribe cs)" by simp_all
  moreover from \<open>sorted_wrt (<) sids\<close> have "distinct sids"
    by (simp add: strict_sorted_iff)
  ultimately show ?thesis using r by simp
qed

text \<open>Three subscriptions with an unsubscription in between get the sids 1, 2 and 3.\<close>

theorem sids_strictly_increasing_witness:
  "fst (run_calls [Subscribe ''orders'' None (), Subscribe ''orders'' (Some ''workers'') (),
                   Unsubscribe 1 None, Subscribe ''news'' None ()] init) = [1, 2, 3] \<and>
   sorted_wrt (<) [1, 2, 3 :: int] \<and> distinct [1, 2, 3 :: int] \<and>
   ssid (init :: unit client) < 1"
  using sids_strictly_increasing
    [of "[Subscribe ''orders'' None (), Subscribe ''orders'' (Some ''workers'') (),
          Unsubscribe 1 None, Subscribe ''news'' None ()]" "init :: unit client"]
  by (simp add: init_def subscribe_def unsubscribe_def send_command_def Let_def)

subsection \<open>Unsubscribing\<close>

text \<open>
  C5, as amended: for every registered sid, after \<^verbatim>\<open>unsubscribe(sid, max)\<close> returns,
  the entry of that sid is still in the subscription table, unchanged. The call
  returns \<^verbatim>\<open>None\<close> and leaves the whole table as it was.
\<close>

theorem unsubscribe_keeps_entry:
  "subs c i = Some sub \<Longrightarrow>
   subs (snd (unsubscribe i mx c)) i = Some sub \<and>
   subs (snd (unsubscribe i mx c)) = subs c \<and>
   fst (unsubscribe i mx c) = Inr ()"
  by (simp add: unsubscribe_subs) (simp add: unsubscribe_def)

theorem unsubscribe_keeps_entry_witness:
  "subs (snd (subscribe ''orders'' None () (init :: unit client))) 1 =
     Some \<lparr>subject = ''orders'', callback = (), received = 0\<rparr> \<and>
   subs (snd (unsubscribe 1 (Some 5) (snd (subscribe ''orders'' None () (init :: unit client))))) 1 =
     Some \<lparr>subject = ''orders'', callback = (), received = 0\<rparr>"
proof -
  have h: "subs (snd (subscribe ''orders'' None () (init :: unit client))) 1 =
     Some \<lparr>subject = ''orders'', callback = (), received = 0\<rparr>"
    by (simp add: init_def subscribe_def send_command_def Let_def)
  from unsubscribe_keeps_entry [OF h, of "Some 5"] h show ?thesis by simp
qed

text \<open>
  The claim as stated fails: on a connected client, after \<^verbatim>\<open>subscribe("orders", None, h)\<close>
  has returned sid 1 and \<^verbatim>\<open>unsubscribe(1, None)\<close> has returned, looking sid 1 up finds
  the subscription.
\<close>

theorem unsubscribe_removes_counterexample:
  "subs (snd (unsubscribe 1 None
           (snd (subscribe ''orders'' None () (init\<lparr>io := Some []\<rparr> :: unit client))))) 1 =
     Some \<lparr>subject = ''orders'', callback = (), received = 0\<rparr>"
  by (simp add: init_def subscribe_def unsubscribe_def send_command_def Let_def)

subsection \<open>Dispatch\<close>

text \<open>
  C1, as amended: for every message whose sid is absent from the subscription table,
  \<^verbatim>\<open>_process_msg\<close> raises \<^verbatim>\<open>KeyError\<close>; no callback is called and the client is left
  as it was, with nothing recorded.
\<close>

theorem process_msg_absent:
  "subs c (sid m) = None \<Longrightarrow> process_msg call m c = (Inl KeyError, c)"
  by (simp add: process_msg_def)

theorem process_msg_absent_witness:
  "subs (init :: unit client)
     (sid \<lparr>msg_subject = ''orders'', msg_reply = [], msg_data = ''x'', sid = 7\<rparr>) = None \<and>
   process_msg (\<lambda>cb m c. (Inr (), c))
     \<lparr>msg_subject = ''orders'', msg_reply = [], msg_data = ''x'', sid = 7\<rparr> (init :: unit client) =
     (Inl KeyError, init)"
proof -
  have h: "subs (init :: unit client)
     (sid \<lparr>msg_subject = ''orders'', msg_reply = [], msg_data = ''x'', sid = 7\<rparr>) = None"
    by (simp add: init_def)
  from process_msg_absent [OF h] h show ?thesis by simp
qed

text \<open>
  The claim as stated fails: on a connected client without subscriptions, dispatching
  a message for sid 1 raises \<^verbatim>\<open>KeyError\<close>.
\<close>

theorem process_msg_absent_counterexample:
  "fst (process_msg (\<lambda>cb m c. (Inr (), c))
         \<lparr>msg_subject = ''orders'', msg_reply = [], msg_data = ''x'', sid = 1\<rparr>
         (init\<lparr>io := Some []\<rparr> :: unit client)) = Inl KeyError"
  by (simp add: process_msg_def init_def)

text \<open>
  C8, as amended: for every message whose sid is in the subscription table, dispatching
  it is one call of the registered callback on the message, and nothing else:
  \<^verbatim>\<open>_process_msg\<close> itself does not change the counter \<^verbatim>\<open>received\<close>, so when the
  callback leaves the table alone the subscription is what it was before.
\<close>

theorem process_msg_present:
  "subs c (sid m) = Some sub \<Longrightarrow>
   process_msg call m c = call (callback sub) m c \<and>
   (subs (snd (call (callback sub) m c)) = subs c \<longrightarrow>
      subs (snd (process_msg call m c)) (sid m) = Some sub)"
  by (simp add: process_msg_def)

text \<open>A callback that stores the payload it was called with in the client.\<close>

theorem process_msg_present_witness:
  "subs (init\<lparr>subs := [1 \<mapsto> \<lparr>subject = ''orders'', callback = (), received = 0\<rparr>]\<rparr> :: unit client)
        (sid \<lparr>msg_subject = ''orders'', msg_reply = [], msg_data = ''x'', sid = 1\<rparr>) =
     Some \<lparr>subject = ''orders'', callback = (), received = 0\<rparr> \<and>
   process_msg (\<lambda>cb m c. (Inr (), c\<lparr>err := Some (msg_data m)\<rparr>))
     \<lparr>msg_subject = ''orders'', msg_reply = [], msg_data = ''x'', sid = 1\<rparr>
     (init\<lparr>subs := [1 \<mapsto> \<lparr>subject = ''orders'', callback = (), received = 0\<rparr>]\<rparr> :: unit client) =
     (Inr (), init\<lparr>subs := [1 \<mapsto> \<lparr>subject = ''orders'', callback = (), received = 0\<rparr>],
                    err := Some ''x''\<rparr>)"
proof -
  have h: "subs (init\<lparr>subs := [1 \<mapsto> \<lparr>subject = ''orders'', callback = (), received = 0\<rparr>]\<rparr> :: unit client)
        (sid \<lparr>msg_subject = ''orders'', msg_reply = [], msg_data = ''x'', sid = 1\<rparr>) =
     Some \<lparr>subject = ''orders'', callback = (), received = 0\<rparr>"
    by (simp add: init_def)
  from process_msg_present [OF h, of "\<lambda>cb m c. (Inr (), c\<lparr>err := Some (msg_data m)\<rparr>)"] h
  show ?thesis by (simp add: init_def)
qed

text \<open>
  The claim as stated fails: after \<^verbatim>\<open>subscribe("orders", None, h)\<close> has returned sid 1,
  dispatching a message for sid 1 to a callback that does not touch the client leaves
  the counter \<^verbatim>\<open>received\<close> of the subscription at 0.
\<close>

theorem process_msg_counts_counterexample:
  "map_option received
     (subs (snd (process_msg (\<lambda>cb m c. (Inr (), c))
                   \<lparr>msg_subject = ''orders'', msg_reply = [], msg_data = ''x'', sid = 1\<rparr>
                   (snd (subscribe ''orders'' None () (init\<lparr>io := Some []\<rparr> :: unit client))))) 1) =
     Some 0"
  by (simp add: process_msg_def init_def subscribe_def send_command_def Let_def)

subsection \<open>Errors and requests\<close>

text \<open>
  C6, on the code: \<^verbatim>\<open>_process_err(e)\<close> raises \<^verbatim>\<open>AttributeError\<close> for every error
  \<^verbatim>\<open>e\<close> and leaves the client as it was, so \<^verbatim>\<open>last_error()\<close> returns afterwards what
  it returned before; on a new client that is \<^verbatim>\<open>None\<close>, not the error processed.
\<close>

theorem process_err_raises:
  "process_err e c = (Inl AttributeError, c) \<and>
   last_error (snd (process_err e c)) = last_error c \<and>
   last_error (snd (process_err (Some ''Authorization Violation'') init)) = None"
  by (simp add: process_err_def last_error_def init_def)

text \<open>
  C2, on the code: \<^verbatim>\<open>request(subject, payload)\<close> resolves to \<^verbatim>\<open>None\<close> and leaves the
  client as it was: no subscription is added and nothing is written to the stream.
\<close>

theorem request_does_nothing:
  "request subj payload c = (Inr None, c) \<and>
   subs (snd (request subj payload c)) = subs c \<and>
   io (snd (request subj payload c)) = io c"
  by (simp add: request_def)

subsection \<open>Choosing the server\<close>

text \<open>
  C4, on the code: on a new client, whatever the argument \<^verbatim>\<open>opts\<close> holds under
  \<^verbatim>\<open>"servers"\<close> (the list with \<^verbatim>\<open>nats://192.168.1.10:4222\<close>, say), \<^verbatim>\<open>connect\<close>
  dials the built-in address 127.0.0.1, port 4222, stores it as host and port, and
  stores no credentials.
\<close>

theorem connect_dials_default:
  "fst (connect_bind urlparse [''servers'' \<mapsto> PList [PStr ''nats://192.168.1.10:4222'']] init) =
     Inr (PStr ''127.0.0.1'', PInt 4222) \<and>
   fst (connect_bind urlparse opts init) = Inr (PStr ''127.0.0.1'', PInt 4222) \<and>
   options (snd (connect_bind urlparse opts init)) ''host'' = Some (PStr ''127.0.0.1'') \<and>
   options (snd (connect_bind urlparse opts init)) ''port'' = Some (PInt 4222) \<and>
   options (snd (connect_bind urlparse opts init)) ''user'' = None \<and>
   options (snd (connect_bind urlparse opts init)) ''pass'' = None"
  by (simp add: connect_bind_def init_def Let_def)

subsection \<open>The CONNECT command\<close>

lemma sort_connect_keys:
  "sort_key fst [(''verbose'', v), (''pedantic'', p), (''lang'', l), (''version'', n)] =
     [(''lang'', l), (''pedantic'', p), (''verbose'', v), (''version'', n)]"
  by simp

lemma sort_connect_keys_auth:
  "sort_key fst [(''verbose'', v), (''pedantic'', p), (''lang'', l), (''version'', n),
                 (''user'', u), (''pass'', pw)] =
     [(''lang'', l), (''pass'', pw), (''pedantic'', p), (''user'', u), (''verbose'', v), (''version'', n)]"
  by simp

lemma encode_keys:
  \<open>encode_basestring_ascii utf8 ''lang'' = Inr ''"lang"''\<close>
  \<open>encode_basestring_ascii utf8 ''pass'' = Inr ''"pass"''\<close>
  \<open>encode_basestring_ascii utf8 ''pedantic'' = Inr ''"pedantic"''\<close>
  \<open>encode_basestring_ascii utf8 ''user'' = Inr ''"user"''\<close>
  \<open>encode_basestring_ascii utf8 ''verbose'' = Inr ''"verbose"''\<close>
  \<open>encode_basestring_ascii utf8 ''version'' = Inr ''"version"''\<close>
  by (simp_all add: encode_basestring_ascii_def escape_ascii_def)



lemma encode_lang_version:
  \<open>encode_basestring_ascii utf8 lang = Inr ''"python2"''\<close>
  \<open>encode_basestring_ascii utf8 version = Inr ''"0.0.1"''\<close>
  by (simp_all add: lang_def version_def encode_basestring_ascii_def escape_ascii_def)

lemma dumps_dict_plain:
  assumes "dumps utf8 v = Inr sv" "dumps utf8 p = Inr sp"
  shows \<open>dumps_dict utf8 [(''verbose'', v), (''pedantic'', p),
                          (''lang'', PStr lang), (''version'', PStr version)] =
         Inr (''{"lang": "python2", "pedantic": '' @ sp @ '', "verbose": '' @ sv @
              '', "version": "0.0.1"}'')\<close>
  unfolding dumps_dict_def sort_connect_keys
  by (simp add: assms encode_keys encode_lang_version)

lemma dumps_dict_auth:
  assumes "dumps utf8 v = Inr sv" "dumps utf8 p = Inr sp"
    "dumps utf8 u = Inr su" "dumps utf8 pw = Inr spw"
  shows \<open>dumps_dict utf8 [(''verbose'', v), (''pedantic'', p),
                          (''lang'', PStr lang), (''version'', PStr version),
                          (''user'', u), (''pass'', pw)] =
         Inr (''{"lang": "python2", "pass": '' @ spw @ '', "pedantic": '' @ sp @
              '', "user": '' @ su @ '', "verbose": '' @ sv @ '', "version": "0.0.1"}'')\<close>
  unfolding dumps_dict_def sort_connect_keys_auth
  by (simp add: assms encode_keys encode_lang_version)

text \<open>
  C9, as amended: \<^verbatim>\<open>connect_command\<close> reads only the options and the server's info
  and returns the line; the keys of its JSON object are in ascending order of the key
  strings: \<^verbatim>\<open>lang\<close>, \<^verbatim>\<open>pass\<close> (conditionally), \<^verbatim>\<open>pedantic\<close>, \<^verbatim>\<open>user\<close>
  (conditionally), \<^verbatim>\<open>verbose\<close>, \<^verbatim>\<open>version\<close>. Clients with equal options and equal
  server info get the same line.
\<close>

theorem connect_command_sorted:
  assumes "options c ''verbose'' = Some v" and "options c ''pedantic'' = Some p"
    and "dumps utf8 v = Inr sv" and "dumps utf8 p = Inr sp"
  shows \<open>(server_info c ''auth_required'' = None \<longrightarrow>
            connect_command utf8 c =
              Inr (''CONNECT {"lang": "python2", "pedantic": '' @ sp @ '', "verbose": '' @ sv @
                   '', "version": "0.0.1"}'' @ CRLF)) \<and>
         (server_info c ''auth_required'' \<noteq> None \<longrightarrow>
            dumps utf8 (case options c ''user'' of None \<Rightarrow> PNone | Some u \<Rightarrow> u) = Inr su \<longrightarrow>
            dumps utf8 (case options c ''pass'' of None \<Rightarrow> PNone | Some pw \<Rightarrow> pw) = Inr spw \<longrightarrow>
            connect_command utf8 c =
              Inr (''CONNECT {"lang": "python2", "pass": '' @ spw @ '', "pedantic": '' @ sp @
                   '', "user": '' @ su @ '', "verbose": '' @ sv @ '', "version": "0.0.1"}'' @ CRLF)) \<and>
         (options c' = options c \<and> server_info c' = server_info c \<longrightarrow>
            connect_command utf8 c' = connect_command utf8 c)\<close>
proof (intro conjI impI)
  assume "server_info c ''auth_required'' = None"
  then show \<open>connect_command utf8 c =
              Inr (''CONNECT {"lang": "python2", "pedantic": '' @ sp @ '', "verbose": '' @ sv @
                   '', "version": "0.0.1"}'' @ CRLF)\<close>
    using assms
    by (simp add: connect_command_def connect_options_def Let_def dumps_dict_plain CONNECT_OP_def)
next
  assume "server_info c ''auth_required'' \<noteq> None"
    and "dumps utf8 (case options c ''user'' of None \<Rightarrow> PNone | Some u \<Rightarrow> u) = Inr su"
    and "dumps utf8 (case options c ''pass'' of None \<Rightarrow> PNone | Some pw \<Rightarrow> pw) = Inr spw"
  then show \<open>connect_command utf8 c =
              Inr (''CONNECT {"lang": "python2", "pass": '' @ spw @ '', "pedantic": '' @ sp @
                   '', "user": '' @ su @ '', "verbose": '' @ sv @ '', "version": "0.0.1"}'' @ CRLF)\<close>
    using assms dumps_dict_auth [of utf8 v sv p sp _ su _ spw]
    by (simp add: connect_command_def connect_options_def Let_def CONNECT_OP_def)
next
  assume "options c' = options c \<and> server_info c' = server_info c"
  then have o: "options c' = options c" and i: "server_info c' = server_info c"
    by simp_all
  show "connect_command utf8 c' = connect_command utf8 c"
    unfolding connect_command_def connect_options_def o i by (rule refl)
qed

text \<open>
  With the credentials \<^verbatim>\<open>hello\<close> and \<^verbatim>\<open>world\<close> and a server that requires
  authentication; and without credentials on a server that does not mention it.
\<close>

theorem connect_command_sorted_witness:
  \<open>options (init\<lparr>options := [''verbose'' \<mapsto> PBool False, ''pedantic'' \<mapsto> PBool True,
                                ''user'' \<mapsto> PStr ''hello'', ''pass'' \<mapsto> PStr ''world''],
                    server_info := [''auth_required'' \<mapsto> PBool True]\<rparr> :: unit client) ''verbose'' =
     Some (PBool False) \<and>
   dumps (\<lambda>s. None) (PBool False) = Inr ''false'' \<and>
   connect_command (\<lambda>s. None)
     (init\<lparr>options := [''verbose'' \<mapsto> PBool False, ''pedantic'' \<mapsto> PBool True,
                        ''user'' \<mapsto> PStr ''hello'', ''pass'' \<mapsto> PStr ''world''],
            server_info := [''auth_required'' \<mapsto> PBool True]\<rparr> :: unit client) =
     Inr (''CONNECT {"lang": "python2", "pass": "world", "pedantic": true, "user": "hello", "verbose": false, "version": "0.0.1"}'' @ CRLF) \<and>
   connect_command (\<lambda>s. None)
     (init\<lparr>options := [''verbose'' \<mapsto> PBool True, ''pedantic'' \<mapsto> PBool False]\<rparr> :: unit client) =
     Inr (''CONNECT {"lang": "python2", "pedantic": false, "verbose": true, "version": "0.0.1"}'' @ CRLF)\<close>
  using connect_command_sorted [of
      "init\<lparr>options := [''verbose'' \<mapsto> PBool False, ''pedantic'' \<mapsto> PBool True,
                         ''user'' \<mapsto> PStr ''hello'', ''pass'' \<mapsto> PStr ''world''],
             server_info := [''auth_required'' \<mapsto> PBool True]\<rparr> :: unit client"
      "PBool False" "PBool True" "\<lambda>s. None" "''false''" "''true''"
      \<open>''"hello"''\<close> \<open>''"world"''\<close>
      "init\<lparr>options := [''verbose'' \<mapsto> PBool False, ''pedantic'' \<mapsto> PBool True,
                         ''user'' \<mapsto> PStr ''hello'', ''pass'' \<mapsto> PStr ''world''],
             server_info := [''auth_required'' \<mapsto> PBool True]\<rparr> :: unit client"]
    connect_command_sorted [of
      "init\<lparr>options := [''verbose'' \<mapsto> PBool True, ''pedantic'' \<mapsto> PBool False]\<rparr> :: unit client"
      "PBool True" "PBool False" "\<lambda>s. None" "''true''" "''false''" "[]" "[]"
      "init\<lparr>options := [''verbose'' \<mapsto> PBool True, ''pedantic'' \<mapsto> PBool False]\<rparr> :: unit client"]
  by (simp add: init_def encode_basestring_ascii_def escape_ascii_def)

text \<open>
  The claim as stated fails: after \<^verbatim>\<open>connect({})\<close> has stored the default options, the
  object of the line starts with the key \<^verbatim>\<open>lang\<close>, and the line is not the one with
  the keys in the order \<^verbatim>\<open>verbose\<close>, \<^verbatim>\<open>pedantic\<close>, \<^verbatim>\<open>lang\<close>, \<^verbatim>\<open>version\<close>.
\<close>

theorem connect_command_key_order_counterexample:
  \<open>connect_command (\<lambda>s. None)
     (snd (connect_bind (\<lambda>x. Inl TypeError) Map.empty (init :: unit client))) =
     Inr (''CONNECT {"lang": "python2", "pedantic": false, "verbose": false, "version": "0.0.1"}'' @ CRLF) \<and>
   connect_command (\<lambda>s. None)
     (snd (connect_bind (\<lambda>x. Inl TypeError) Map.empty (init :: unit client))) \<noteq>
     Inr (''CONNECT {"verbose": false, "pedantic": false, "lang": "python2", "version": "0.0.1"}'' @ CRLF)\<close>
  by (simp add: connect_command_def connect_options_def connect_bind_def init_def Let_def
      dumps_dict_plain CONNECT_OP_def)

text \<open>
  C3, as amended: when the server's info declares that authentication is required
  (\<^verbatim>\<open>"auth_required": true\<close>), the line built by \<^verbatim>\<open>connect_command\<close> has the
  keys \<^verbatim>\<open>pass\<close> and \<^verbatim>\<open>user\<close>, with the client's credentials as values and
  \<^verbatim>\<open>null\<close> for a credential the client has not configured: without credentials both
  keys are there, \<^verbatim>\<open>null\<close>, not omitted. When the server's info has no key
  \<^verbatim>\<open>auth_required\<close>, the line has neither key.
\<close>

theorem connect_command_credentials:
  assumes "options c ''verbose'' = Some v" and "options c ''pedantic'' = Some p"
    and "dumps utf8 v = Inr sv" and "dumps utf8 p = Inr sp"
  shows \<open>(server_info c ''auth_required'' = Some (PBool True) \<longrightarrow>
            dumps utf8 (case options c ''user'' of None \<Rightarrow> PNone | Some u \<Rightarrow> u) = Inr su \<longrightarrow>
            dumps utf8 (case options c ''pass'' of None \<Rightarrow> PNone | Some pw \<Rightarrow> pw) = Inr spw \<longrightarrow>
            connect_options c =
              Inr [(''verbose'', v), (''pedantic'', p), (''lang'', PStr lang),
                   (''version'', PStr version),
                   (''user'', case options c ''user'' of None \<Rightarrow> PNone | Some u \<Rightarrow> u),
                   (''pass'', case options c ''pass'' of None \<Rightarrow> PNone | Some pw \<Rightarrow> pw)] \<and>
            connect_command utf8 c =
              Inr (''CONNECT {"lang": "python2", "pass": '' @ spw @ '', "pedantic": '' @ sp @
                   '', "user": '' @ su @ '', "verbose": '' @ sv @ '', "version": "0.0.1"}'' @ CRLF)) \<and>
         (server_info c ''auth_required'' = Some (PBool True) \<longrightarrow>
            options c ''user'' = None \<longrightarrow> options c ''pass'' = None \<longrightarrow>
            connect_command utf8 c =
              Inr (''CONNECT {"lang": "python2", "pass": null, "pedantic": '' @ sp @
                   '', "user": null, "verbose": '' @ sv @ '', "version": "0.0.1"}'' @ CRLF)) \<and>
         (server_info c ''auth_required'' = None \<longrightarrow>
            connect_options c =
              Inr [(''verbose'', v), (''pedantic'', p), (''lang'', PStr lang),
                   (''version'', PStr version)] \<and>
            connect_command utf8 c =
              Inr (''CONNECT {"lang": "python2", "pedantic": '' @ sp @ '', "verbose": '' @ sv @
                   '', "version": "0.0.1"}'' @ CRLF))\<close>
proof (intro conjI impI)
  assume a: "server_info c ''auth_required'' = Some (PBool True)"
    and u: "dumps utf8 (case options c ''user'' of None \<Rightarrow> PNone | Some u \<Rightarrow> u) = Inr su"
    and pw: "dumps utf8 (case options c ''pass'' of None \<Rightarrow> PNone | Some pw \<Rightarrow> pw) = Inr spw"
  show d: "connect_options c =
              Inr [(''verbose'', v), (''pedantic'', p), (''lang'', PStr lang),
                   (''version'', PStr version),
                   (''user'', case options c ''user'' of None \<Rightarrow> PNone | Some u \<Rightarrow> u),
                   (''pass'', case options c ''pass'' of None \<Rightarrow> PNone | Some pw \<Rightarrow> pw)]"
    using assms(1,2) a by (simp add: connect_options_def)
  show \<open>connect_command utf8 c =
              Inr (''CONNECT {"lang": "python2", "pass": '' @ spw @ '', "pedantic": '' @ sp @
                   '', "user": '' @ su @ '', "verbose": '' @ sv @ '', "version": "0.0.1"}'' @ CRLF)\<close>
    using dumps_dict_auth [OF assms(3,4) u pw]
    by (simp add: connect_command_def d CONNECT_OP_def)
next
  assume a: "server_info c ''auth_required'' = Some (PBool True)"
    and u: "options c ''user'' = None" and pw: "options c ''pass'' = None"
  have d: "connect_options c =
              Inr [(''verbose'', v), (''pedantic'', p), (''lang'', PStr lang),
                   (''version'', PStr version), (''user'', PNone), (''pass'', PNone)]"
    using assms(1,2) a u pw by (simp add: connect_options_def)
  have n: "dumps utf8 PNone = Inr ''null''" by simp
  show \<open>connect_command utf8 c =
              Inr (''CONNECT {"lang": "python2", "pass": null, "pedantic": '' @ sp @
                   '', "user": null, "verbose": '' @ sv @ '', "version": "0.0.1"}'' @ CRLF)\<close>
    using dumps_dict_auth [OF assms(3,4) n n]
    by (simp add: connect_command_def d CONNECT_OP_def)
next
  assume a: "server_info c ''auth_required'' = None"
  show d: "connect_options c =
              Inr [(''verbose'', v), (''pedantic'', p), (''lang'', PStr lang),
                   (''version'', PStr version)]"
    using assms(1,2) a by (simp add: connect_options_def)
  show \<open>connect_command utf8 c =
              Inr (''CONNECT {"lang": "python2", "pedantic": '' @ sp @ '', "verbose": '' @ sv @
                   '', "version": "0.0.1"}'' @ CRLF)\<close>
    using dumps_dict_plain [OF assms(3,4)]
    by (simp add: connect_command_def d CONNECT_OP_def)
qed

text \<open>
  A server that requires authentication and a client without credentials, then one
  with the credentials \<^verbatim>\<open>hello\<close> and \<^verbatim>\<open>world\<close>; and a server whose info has no
  key \<^verbatim>\<open>auth_required\<close>.
\<close>

theorem connect_command_credentials_witness:
  \<open>server_info (init\<lparr>options := [''verbose'' \<mapsto> PBool False, ''pedantic'' \<mapsto> PBool False],
                       server_info := [''auth_required'' \<mapsto> PBool True]\<rparr> :: unit client)
      ''auth_required'' = Some (PBool True) \<and>
   connect_command (\<lambda>s. None)
     (init\<lparr>options := [''verbose'' \<mapsto> PBool False, ''pedantic'' \<mapsto> PBool False],
            server_info := [''auth_required'' \<mapsto> PBool True]\<rparr> :: unit client) =
     Inr (''CONNECT {"lang": "python2", "pass": null, "pedantic": false, "user": null, "verbose": false, "version": "0.0.1"}'' @ CRLF) \<and>
   connect_command (\<lambda>s. None)
     (init\<lparr>options := [''verbose'' \<mapsto> PBool False, ''pedantic'' \<mapsto> PBool False,
                        ''user'' \<mapsto> PStr ''hello'', ''pass'' \<mapsto> PStr ''world''],
            server_info := [''auth_required'' \<mapsto> PBool True]\<rparr> :: unit client) =
     Inr (''CONNECT {"lang": "python2", "pass": "world", "pedantic": false, "user": "hello", "verbose": false, "version": "0.0.1"}'' @ CRLF) \<and>
   connect_command (\<lambda>s. None)
     (init\<lparr>options := [''verbose'' \<mapsto> PBool False, ''pedantic'' \<mapsto> PBool False,
                        ''user'' \<mapsto> PStr ''hello'', ''pass'' \<mapsto> PStr ''world'']\<rparr> :: unit client) =
     Inr (''CONNECT {"lang": "python2", "pedantic": false, "verbose": false, "version": "0.0.1"}'' @ CRLF)\<close>
  using connect_command_credentials [of
      "init\<lparr>options := [''verbose'' \<mapsto> PBool False, ''pedantic'' \<mapsto> PBool False],
             server_info := [''auth_required'' \<mapsto> PBool True]\<rparr> :: unit client"
      "PBool False" "PBool False" "\<lambda>s. None" "''false''" "''false''" "''null''" "''null''"]
    connect_command_credentials [of
      "init\<lparr>options := [''verbose'' \<mapsto> PBool False, ''pedantic'' \<mapsto> PBool False,
                         ''user'' \<mapsto> PStr ''hello'', ''pass'' \<mapsto> PStr ''world''],
             server_info := [''auth_required'' \<mapsto> PBool True]\<rparr> :: unit client"
      "PBool False" "PBool False" "\<lambda>s. None" "''false''" "''false''"
      \<open>''"hello"''\<close> \<open>''"world"''\<close>]
    connect_command_credentials [of
      "init\<lparr>options := [''verbose'' \<mapsto> PBool False, ''pedantic'' \<mapsto> PBool False,
                         ''user'' \<mapsto> PStr ''hello'', ''pass'' \<mapsto> PStr ''world'']\<rparr> :: unit client"
      "PBool False" "PBool False" "\<lambda>s. None" "''false''" "''false''" "[]" "[]"]
  by (simp add: init_def encode_basestring_ascii_def escape_ascii_def)

text \<open>
  The claim as stated fails: after \<^verbatim>\<open>connect({})\<close>, without credentials, on a server
  whose info says \<^verbatim>\<open>"auth_required": true\<close>, the line has the keys \<^verbatim>\<open>pass\<close> and
  \<^verbatim>\<open>user\<close>, both \<^verbatim>\<open>null\<close>.
\<close>

theorem connect_command_credentials_counterexample:
  \<open>connect_command (\<lambda>s. None)
     ((snd (connect_bind (\<lambda>x. Inl TypeError) Map.empty (init :: unit client)))
        \<lparr>server_info := [''auth_required'' \<mapsto> PBool True]\<rparr>) =
     Inr (''CONNECT {"lang": "python2", "pass": null, "pedantic": false, "user": null, "verbose": false, "version": "0.0.1"}'' @ CRLF)\<close>
  by (simp add: connect_command_def connect_options_def connect_bind_def init_def Let_def
      dumps_dict_auth CONNECT_OP_def)

end
